theory Spec2Isabelle
  imports Main "HOL-Library.Char_ord" "HOL-Library.List_Lexorder"
begin

section \<open>Strings as JavaScript sees them\<close>

text \<open>
  Strings are lists of 8-bit code units.  The helpers below are the fragments of the
  JavaScript string API that the modelled sources call: truthiness of a string,
  \<^verbatim>\<open>startsWith\<close>, \<^verbatim>\<open>includes\<close>, \<^verbatim>\<open>indexOf\<close>, \<^verbatim>\<open>substring\<close> and \<^verbatim>\<open>split\<close> on a single character.
\<close>

definition truthy :: "string \<Rightarrow> bool" where
  "truthy s = (s \<noteq> [])"

definition startsWith :: "string \<Rightarrow> string \<Rightarrow> bool" where
  "startsWith s p = (take (length p) s = p)"

fun str_includes :: "string \<Rightarrow> string \<Rightarrow> bool" where
  "str_includes [] p = (p = [])"
| "str_includes (c # cs) p = (startsWith (c # cs) p \<or> str_includes cs p)"

fun indexOf :: "string \<Rightarrow> string \<Rightarrow> nat option" where
  "indexOf [] p = (if p = [] then Some 0 else None)"
| "indexOf (c # cs) p =
     (if startsWith (c # cs) p then Some 0
      else (case indexOf cs p of None \<Rightarrow> None | Some i \<Rightarrow> Some (Suc i)))"

fun splitOn :: "char \<Rightarrow> string \<Rightarrow> string list" where
  "splitOn d [] = [[]]"
| "splitOn d (c # cs) =
     (case splitOn d cs of
        [] \<Rightarrow> [[c]]
      | w # ws \<Rightarrow> if c = d then [] # w # ws else (c # w) # ws)"

definition isLowerAlnum :: "char \<Rightarrow> bool" where
  "isLowerAlnum c = ((CHR ''a'' \<le> c \<and> c \<le> CHR ''z'') \<or> (CHR ''0'' \<le> c \<and> c \<le> CHR ''9''))"

definition isDigit :: "char \<Rightarrow> bool" where
  "isDigit c = (CHR ''0'' \<le> c \<and> c \<le> CHR ''9'')"

section \<open>utils/helpers: bucket name validation\<close>

text \<open>
  \<^verbatim>\<open>/^[a-z0-9][a-z0-9\-]*[a-z0-9]$/.test(name)\<close>: a first and a last character from
  \<^verbatim>\<open>[a-z0-9]\<close> (two distinct positions) and only \<^verbatim>\<open>[a-z0-9-]\<close> between them.
\<close>

definition bucketNameRegex_test :: "string \<Rightarrow> bool" where
  "bucketNameRegex_test name =
     (case name of
        [] \<Rightarrow> False
      | c # cs \<Rightarrow>
          isLowerAlnum c \<and> cs \<noteq> [] \<and> isLowerAlnum (last cs) \<and>
          list_all (\<lambda>x. isLowerAlnum x \<or> x = CHR ''-'') (butlast cs))"

text \<open>
  \<^verbatim>\<open>/^\d{1,3}\.\d{1,3}\.\d{1,3}\.\d{1,3}$/.test(name)\<close>: exactly four dot-separated
  groups of one to three decimal digits.
\<close>

definition digitGroup :: "string \<Rightarrow> bool" where
  "digitGroup g = (1 \<le> length g \<and> length g \<le> 3 \<and> list_all isDigit g)"

definition ipRegex_test :: "string \<Rightarrow> bool" where
  "ipRegex_test name =
     (case splitOn (CHR ''.'') name of
        [a, b, c, d] \<Rightarrow> digitGroup a \<and> digitGroup b \<and> digitGroup c \<and> digitGroup d
      | _ \<Rightarrow> False)"

definition validateBucketName :: "string \<Rightarrow> bool" where
  "validateBucketName name =
     (if \<not> truthy name \<or> length name < 3 \<or> length name > 63 then False
      else if \<not> bucketNameRegex_test name then False
      else if str_includes name ''..'' \<or> str_includes name ''--'' then False
      else if ipRegex_test name then False
      else True)"

section \<open>Paths\<close>

text \<open>
  \<^verbatim>\<open>path.join\<close> of Node (POSIX flavour): the non-empty arguments are joined with a slash
  and the result is normalised.  Normalisation drops empty and \<^verbatim>\<open>.\<close> segments and
  resolves \<^verbatim>\<open>..\<close> against the segment before it; a relative path may climb above
  its start, an absolute one may not.  The accumulator of \<open>normalizeString\<close> holds the
  segments kept so far, last one first.
\<close>

fun joinWith :: "string \<Rightarrow> string list \<Rightarrow> string" where
  "joinWith sep [] = []"
| "joinWith sep [x] = x"
| "joinWith sep (x # y # ys) = x @ sep @ joinWith sep (y # ys)"

fun normalizeString :: "bool \<Rightarrow> string list \<Rightarrow> string list \<Rightarrow> string list" where
  "normalizeString allowAboveRoot res [] = rev res"
| "normalizeString allowAboveRoot res (s # ss) =
     (if s = [] \<or> s = ''.'' then normalizeString allowAboveRoot res ss
      else if s = ''..'' then
        (case res of
           [] \<Rightarrow> normalizeString allowAboveRoot (if allowAboveRoot then [''..''] else []) ss
         | t # ts \<Rightarrow>
             if t = ''..'' then
               normalizeString allowAboveRoot (if allowAboveRoot then ''..'' # res else res) ss
             else normalizeString allowAboveRoot ts ss)
      else normalizeString allowAboveRoot (s # res) ss)"

definition path_normalize :: "string \<Rightarrow> string" where
  "path_normalize path =
     (if path = [] then ''.''
      else
        let isAbsolute = (hd path = CHR ''/'');
            trailingSeparator = (last path = CHR ''/'');
            p = joinWith ''/'' (normalizeString (\<not> isAbsolute) [] (splitOn (CHR ''/'') path))
        in if p = [] then (if isAbsolute then ''/'' else if trailingSeparator then ''./'' else ''.'')
           else (if isAbsolute then ''/'' else []) @ p @ (if trailingSeparator then ''/'' else []))"

definition path_join :: "string list \<Rightarrow> string" where
  "path_join args =
     (case filter (\<lambda>a. a \<noteq> []) args of
        [] \<Rightarrow> ''.''
      | a # as \<Rightarrow> path_normalize (joinWith ''/'' (a # as)))"

text \<open>
  \<^verbatim>\<open>sanitizePath\<close> of the file-system provider:
  \<^verbatim>\<open>pathStr.replace(/[<>:"|?*]/g, '_').replace(/\.\./g, '_')\<close>.
\<close>

definition reservedChar :: "char \<Rightarrow> bool" where
  "reservedChar c = (c \<in> set ''<>:|?*'' \<or> c = CHR 0x22)"

fun replaceDotDot :: "string \<Rightarrow> string" where
  "replaceDotDot (a # b # cs) =
     (if a = CHR ''.'' \<and> b = CHR ''.'' then CHR ''_'' # replaceDotDot cs
      else a # replaceDotDot (b # cs))"
| "replaceDotDot cs = cs"

definition sanitizePath :: "string \<Rightarrow> string" where
  "sanitizePath pathStr =
     replaceDotDot (map (\<lambda>c. if reservedChar c then CHR ''_'' else c) pathStr)"

section \<open>The file system under the storage providers\<close>

text \<open>
  A file holds raw bytes, or the text that \<^verbatim>\<open>JSON.stringify\<close> wrote for a sidecar record;
  \<^verbatim>\<open>JSON.parse\<close> of such a text gives the record back.  Directories are not modelled
  (\<^verbatim>\<open>mkdir\<close> with \<^verbatim>\<open>recursive\<close> always succeeds).  A path in \<open>readonly\<close> refuses writes
  and unlinks with \<^verbatim>\<open>EACCES\<close>, the one failure other than \<^verbatim>\<open>ENOENT\<close> that the model has.
\<close>

type_synonym bytes = string

record jsonmeta =
  m_size :: "nat option"
  m_etag :: "string option"
  m_lastModified :: "string option"
  m_contentType :: "string option"
  m_userMetadata :: "(string \<times> string) list option"

definition emptyMeta :: jsonmeta where
  "emptyMeta = \<lparr>m_size = None, m_etag = None, m_lastModified = None,
                 m_contentType = None, m_userMetadata = None\<rparr>"

datatype content = Raw bytes | Json jsonmeta

datatype errno = ENOENT | EACCES

record filesystem =
  files :: "string \<rightharpoonup> content"
  readonly :: "string set"

definition fs_access :: "filesystem \<Rightarrow> string \<Rightarrow> errno + unit" where
  "fs_access fs p = (case files fs p of None \<Rightarrow> Inl ENOENT | Some _ \<Rightarrow> Inr ())"

definition fs_readFile :: "filesystem \<Rightarrow> string \<Rightarrow> errno + content" where
  "fs_readFile fs p = (case files fs p of None \<Rightarrow> Inl ENOENT | Some c \<Rightarrow> Inr c)"

definition fs_writeFile :: "filesystem \<Rightarrow> string \<Rightarrow> content \<Rightarrow> errno + filesystem" where
  "fs_writeFile fs p c =
     (if p \<in> readonly fs then Inl EACCES else Inr (fs\<lparr>files := (files fs)(p \<mapsto> c)\<rparr>))"

definition fs_unlink :: "filesystem \<Rightarrow> string \<Rightarrow> errno + filesystem" where
  "fs_unlink fs p =
     (case files fs p of
        None \<Rightarrow> Inl ENOENT
      | Some _ \<Rightarrow> if p \<in> readonly fs then Inl EACCES
                  else Inr (fs\<lparr>files := (files fs)(p := None)\<rparr>))"

section \<open>Errors\<close>

datatype error =
    AppError string nat string
  | TypeError string
  | Error string
  | SystemError errno
  | SequelizeValidationError string
  | SequelizeDatabaseError string


section \<open>Storage providers: put, get and delete\<close>

text \<open>
  The libraries the providers call are parameters: \<open>md5\<close> is
  \<^verbatim>\<open>crypto.createHash('md5').update(data).digest('hex')\<close>, \<open>jsonParse\<close> is what
  \<^verbatim>\<open>JSON.parse\<close> makes of a file of raw bytes (\<open>None\<close> when it throws),
  \<open>jsonStringify\<close> is the text of a sidecar record, \<open>basePath\<close> is the root of the store.
\<close>

record provider =
  basePath :: string
  md5 :: "bytes \<Rightarrow> string"
  jsonParse :: "bytes \<Rightarrow> jsonmeta option"
  jsonStringify :: "jsonmeta \<Rightarrow> bytes"

datatype put_data = Buffer bytes | Readable "bytes list" | Unsupported

record put_result =
  r_etag :: string
  r_size :: nat
  r_lastModified :: string
  r_location :: string

record get_result =
  g_stream :: content
  g_metadata :: jsonmeta
  g_size :: nat
  g_etag :: string
  g_lastModified :: string
  g_contentType :: string

definition orDefault :: "string option \<Rightarrow> string \<Rightarrow> string" where
  "orDefault v d = (case v of None \<Rightarrow> d | Some s \<Rightarrow> if truthy s then s else d)"

text \<open>The path of an object in each provider.\<close>

definition getObjectPath :: "provider \<Rightarrow> string \<Rightarrow> string \<Rightarrow> string" where
  "getObjectPath pr bucketName objectKey =
     path_join [basePath pr, sanitizePath bucketName, sanitizePath objectKey]"

definition generateStorageKey :: "string \<Rightarrow> string \<Rightarrow> string" where
  "generateStorageKey bucketName objectKey = path_join [bucketName, objectKey]"

definition storageObjectPath :: "provider \<Rightarrow> string \<Rightarrow> string" where
  "storageObjectPath pr storageKey = path_join [basePath pr, storageKey]"

text \<open>
  \<^verbatim>\<open>putObject\<close>, from the resolved object path on; the two providers share this body.
  \<open>now\<close> is \<^verbatim>\<open>new Date().toISOString()\<close>; \<open>location\<close> is what the result reports beside
  etag and size (the path, or the storage key); \<open>unsupported\<close> is the message of the
  error for data that is neither a buffer nor a stream.  A stream is hashed and counted
  chunk by chunk while it is written.
\<close>

definition putAt ::
  "provider \<Rightarrow> string \<Rightarrow> filesystem \<Rightarrow> string \<Rightarrow> string \<Rightarrow> string \<Rightarrow> put_data
     \<Rightarrow> jsonmeta \<Rightarrow> (error + put_result) \<times> filesystem" where
  "putAt pr now fs objectPath location unsupported data metadata =
     (let written =
        (case data of
           Buffer b \<Rightarrow>
             (case fs_writeFile fs objectPath (Raw b) of
                Inl e \<Rightarrow> Inl (SystemError e)
              | Inr fs1 \<Rightarrow> Inr (fs1, length b, md5 pr b))
         | Readable chunks \<Rightarrow>
             (case fs_writeFile fs objectPath (Raw (concat chunks)) of
                Inl e \<Rightarrow> Inl (SystemError e)
              | Inr fs1 \<Rightarrow> Inr (fs1, sum_list (map length chunks), md5 pr (concat chunks)))
         | Unsupported \<Rightarrow> Inl (Error unsupported))
      in case written of
           Inl e \<Rightarrow> (Inl e, fs)
         | Inr (fs1, sz, etag) \<Rightarrow>
             let fullMetadata = metadata\<lparr>
                   m_size := Some sz,
                   m_etag := Some etag,
                   m_lastModified := Some now,
                   m_contentType := Some (orDefault (m_contentType metadata) ''application/octet-stream'')\<rparr>
             in case fs_writeFile fs1 (objectPath @ ''.meta'') (Json fullMetadata) of
                  Inl e \<Rightarrow> (Inl (SystemError e), fs1)
                | Inr fs2 \<Rightarrow>
                    (Inr \<lparr>r_etag = etag, r_size = sz, r_lastModified = now,
                          r_location = location\<rparr>, fs2))"

definition getAt ::
  "provider \<Rightarrow> filesystem \<Rightarrow> string \<Rightarrow> string \<Rightarrow> string \<Rightarrow> error + get_result" where
  "getAt pr fs objectPath bucketName objectKey =
     (case fs_access fs objectPath of
        Inl ENOENT \<Rightarrow> Inl (Error (''Object not found: '' @ bucketName @ ''/'' @ objectKey))
      | Inl e \<Rightarrow> Inl (SystemError e)
      | Inr _ \<Rightarrow>
          let metadata =
                (case fs_readFile fs (objectPath @ ''.meta'') of
                   Inl e \<Rightarrow> emptyMeta
                 | Inr (Json m) \<Rightarrow> m
                 | Inr (Raw b) \<Rightarrow> (case jsonParse pr b of None \<Rightarrow> emptyMeta | Some m \<Rightarrow> m))
          in (case fs_readFile fs objectPath of
                Inl e \<Rightarrow> Inl (SystemError e)
              | Inr stream \<Rightarrow>
                  Inr \<lparr>g_stream = stream,
                       g_metadata = metadata,
                       g_size = (case m_size metadata of None \<Rightarrow> 0 | Some n \<Rightarrow> n),
                       g_etag = orDefault (m_etag metadata) [],
                       g_lastModified = orDefault (m_lastModified metadata) [],
                       g_contentType =
                         orDefault (m_contentType metadata) ''application/octet-stream''\<rparr>))"

definition deleteAt :: "filesystem \<Rightarrow> string \<Rightarrow> (error + bool) \<times> filesystem" where
  "deleteAt fs objectPath =
     (let afterObject =
        (case fs_unlink fs objectPath of
           Inl ENOENT \<Rightarrow> Inr fs
         | Inl e \<Rightarrow> Inl (SystemError e)
         | Inr fs1 \<Rightarrow> Inr fs1)
      in case afterObject of
           Inl e \<Rightarrow> (Inl e, fs)
         | Inr fs1 \<Rightarrow>
             (case fs_unlink fs1 (objectPath @ ''.meta'') of
                Inl e \<Rightarrow> (Inr True, fs1)
              | Inr fs2 \<Rightarrow> (Inr True, fs2)))"




text \<open>\<^verbatim>\<open>StorageProvider\<close>, the provider that \<^verbatim>\<open>storage.getDefault()\<close> constructs: paths are
  joined as given, the result reports the storage key.  It has no method \<^verbatim>\<open>delete\<close>.\<close>

definition StorageProvider_putObject ::
  "provider \<Rightarrow> string \<Rightarrow> filesystem \<Rightarrow> string \<Rightarrow> string \<Rightarrow> put_data \<Rightarrow> jsonmeta
     \<Rightarrow> (error + put_result) \<times> filesystem" where
  "StorageProvider_putObject pr now fs bucketName objectKey data metadata =
     (let storageKey = generateStorageKey bucketName objectKey
      in putAt pr now fs (storageObjectPath pr storageKey) storageKey
           ''Unsupported data type. Expected Buffer or Stream.'' data metadata)"

definition StorageProvider_getObject ::
  "provider \<Rightarrow> filesystem \<Rightarrow> string \<Rightarrow> string \<Rightarrow> error + get_result" where
  "StorageProvider_getObject pr fs bucketName objectKey =
     getAt pr fs (storageObjectPath pr (generateStorageKey bucketName objectKey))
       bucketName objectKey"

definition StorageProvider_deleteObject ::
  "provider \<Rightarrow> filesystem \<Rightarrow> string \<Rightarrow> string \<Rightarrow> (error + bool) \<times> filesystem" where
  "StorageProvider_deleteObject pr fs bucketName objectKey =
     deleteAt fs (storageObjectPath pr (generateStorageKey bucketName objectKey))"

section \<open>The IAM client and the IAM service\<close>

text \<open>
  A permission decision.  The fields that only echo the request (user, action, resource,
  context, timestamp) are left out; \<open>p_error\<close> is the \<^verbatim>\<open>error\<close> field a failed check carries.
\<close>

record permission =
  p_allowed :: bool
  p_policy :: "string option"
  p_reason :: string
  p_error :: "string option"

record statement =
  s_Effect :: string
  s_Action :: "string list"
  s_Resource :: "string list"

record iam_policy =
  pol_name :: string
  pol_Statement :: "statement list"

text \<open>
  \<^verbatim>\<open>_substituteVariables\<close> replaces every \<^verbatim>\<open>${name}\<close> (a non-empty name without a closing
  brace in it) by the value the context has for it, and leaves it as it is when the
  context has none.  The context of a resource match is \<^verbatim>\<open>{ userId }\<close>, so only
  \<^verbatim>\<open>${userId}\<close> resolves, to a non-empty user id (the names every JavaScript object
  inherits, such as \<^verbatim>\<open>constructor\<close>, are taken to have no value).  The second argument
  is the name read so far (last character first) once \<^verbatim>\<open>${\<close> has been seen.
\<close>

fun substituteVariables :: "string \<Rightarrow> string option \<Rightarrow> string \<Rightarrow> string" where
  "substituteVariables userId None [] = []"
| "substituteVariables userId None (c # cs) =
     (if c = CHR ''$'' then
        (case cs of
           [] \<Rightarrow> [c]
         | d # rest \<Rightarrow>
             if d = CHR ''{'' then substituteVariables userId (Some []) rest
             else c # substituteVariables userId None cs)
      else c # substituteVariables userId None cs)"
| "substituteVariables userId (Some acc) [] = ''${'' @ rev acc"
| "substituteVariables userId (Some acc) (c # cs) =
     (if c = CHR ''}'' then
        (if acc = [] then ''${}'' @ substituteVariables userId None cs
         else (if rev acc = ''userId'' \<and> truthy userId then userId
               else ''${'' @ rev acc @ ''}'') @ substituteVariables userId None cs)
      else substituteVariables userId (Some (c # acc)) cs)"

definition wildcardMatch :: "string \<Rightarrow> string \<Rightarrow> bool" where
  "wildcardMatch pat req =
     (pat = ''*'' \<or> pat = req \<or>
      (pat \<noteq> [] \<and> last pat = CHR ''*'' \<and> startsWith req (butlast pat)))"

definition checkActionMatch :: "string list \<Rightarrow> string \<Rightarrow> bool" where
  "checkActionMatch policyActions requestAction =
     list_ex (\<lambda>a. wildcardMatch a requestAction) policyActions"

definition checkResourceMatch :: "string list \<Rightarrow> string \<Rightarrow> string \<Rightarrow> bool" where
  "checkResourceMatch policyResources requestResource userId =
     list_ex (\<lambda>r. wildcardMatch (substituteVariables userId None r) requestResource)
       policyResources"

text \<open>The simulated role and policy data of the client.\<close>

definition isAdminUser :: "string \<Rightarrow> bool" where
  "isAdminUser userId =
     (userId = ''admin-user'' \<or> userId = ''admin-123'' \<or>
      userId = ''2bff526c-82d0-4742-899c-9f5ff03ff447'')"

definition getUserRoles :: "string \<Rightarrow> string list" where
  "getUserRoles userId =
     (if isAdminUser userId then [''AdminRole'']
      else if userId = ''test-user-123'' then [''UserRole'']
      else if userId = ''readonly-user'' then [''ReadOnlyRole'']
      else [''UserRole''])"

definition rolePolicies :: "string \<Rightarrow> string \<Rightarrow> iam_policy list" where
  "rolePolicies userId role =
     (if role = ''AdminRole'' then
        [\<lparr>pol_name = ''S3FullAccess'',
          pol_Statement = [\<lparr>s_Effect = ''Allow'', s_Action = [''s3:*''], s_Resource = [''*'']\<rparr>]\<rparr>]
      else if role = ''UserRole'' then
        [\<lparr>pol_name = ''S3UserAccess'',
          pol_Statement =
            [\<lparr>s_Effect = ''Allow'', s_Action = [''s3:ListBuckets'', ''s3:CreateBucket''],
              s_Resource = [''*'']\<rparr>,
             \<lparr>s_Effect = ''Allow'', s_Action = [''s3:*''],
              s_Resource = [''arn:aws:s3:::'' @ userId @ ''/*'']\<rparr>]\<rparr>]
      else if role = ''ReadOnlyRole'' then
        [\<lparr>pol_name = ''S3ReadOnly'',
          pol_Statement =
            [\<lparr>s_Effect = ''Allow'',
              s_Action = [''s3:GetObject'', ''s3:ListBuckets'', ''s3:ListObjects''],
              s_Resource = [''*'']\<rparr>]\<rparr>]
      else [])"

definition getUserPolicies :: "string \<Rightarrow> iam_policy list" where
  "getUserPolicies userId =
     concat (map (rolePolicies userId) (getUserRoles userId)) @
     (if isAdminUser userId then
        [\<lparr>pol_name = ''DirectAdminPolicy'',
          pol_Statement = [\<lparr>s_Effect = ''Allow'', s_Action = [''*''], s_Resource = [''*'']\<rparr>]\<rparr>]
      else [])"

text \<open>
  The decision loop of \<^verbatim>\<open>IAMClient.checkPermission\<close>: within a policy the first statement
  whose action and resource match decides; the search over the policies ends at the first
  policy that decided and has a non-empty name (\<^verbatim>\<open>if (matchedPolicy) break\<close>).
\<close>

fun decideStatements ::
  "string \<Rightarrow> string \<Rightarrow> string \<Rightarrow> string \<Rightarrow> statement list \<Rightarrow> permission option" where
  "decideStatements userId s3Action resource name [] = None"
| "decideStatements userId s3Action resource name (st # sts) =
     (if checkActionMatch (s_Action st) s3Action \<and>
         checkResourceMatch (s_Resource st) resource userId
      then
        (let allowed = (s_Effect st = ''Allow'')
         in Some \<lparr>p_allowed = allowed, p_policy = Some name,
                  p_reason = (if allowed then ''Permission granted by policy''
                              else ''Permission denied by policy''),
                  p_error = None\<rparr>)
      else decideStatements userId s3Action resource name sts)"

fun decidePolicies ::
  "string \<Rightarrow> string \<Rightarrow> string \<Rightarrow> permission \<Rightarrow> iam_policy list \<Rightarrow> permission" where
  "decidePolicies userId s3Action resource decision [] = decision"
| "decidePolicies userId s3Action resource decision (pol # pols) =
     (case decideStatements userId s3Action resource (pol_name pol) (pol_Statement pol) of
        Some d \<Rightarrow>
          if truthy (pol_name pol) then d
          else decidePolicies userId s3Action resource d pols
      | None \<Rightarrow> decidePolicies userId s3Action resource decision pols)"

definition noMatch :: permission where
  "noMatch = \<lparr>p_allowed = False, p_policy = None, p_reason = ''No matching policy found'',
              p_error = None\<rparr>"

definition IAMClient_checkPermission :: "string \<Rightarrow> string \<Rightarrow> string \<Rightarrow> permission" where
  "IAMClient_checkPermission userId action resource =
     (let policies = getUserPolicies userId;
          s3Action = (if startsWith action ''s3:'' then action else ''s3:'' @ action)
      in if isAdminUser userId then
           \<lparr>p_allowed = True, p_policy = Some ''AdminPolicy'',
            p_reason = ''Administrative access granted'', p_error = None\<rparr>
         else decidePolicies userId s3Action resource noMatch policies)"

text \<open>
  \<^verbatim>\<open>IAMService\<close> is constructed over a client.  A call of the client's
  \<^verbatim>\<open>checkPermission(userId, action, resource, context)\<close> either throws (\<open>Inl\<close> the
  message: a transport error, a timeout) or returns a value, which may be
  \<^verbatim>\<open>null\<close>.  The service turns a throw into a denial.
\<close>

type_synonym iam_client =
  "string \<Rightarrow> string \<Rightarrow> string \<Rightarrow> string \<Rightarrow> string + permission option"

definition simulatedClient :: iam_client where
  "simulatedClient userId action resource context =
     Inr (Some (IAMClient_checkPermission userId action resource))"

definition IAMService_checkPermission ::
  "iam_client \<Rightarrow> string \<Rightarrow> string \<Rightarrow> string \<Rightarrow> string \<Rightarrow> permission option" where
  "IAMService_checkPermission client userId action resource context =
     (case client userId action resource context of
        Inr result \<Rightarrow> result
      | Inl message \<Rightarrow>
          Some \<lparr>p_allowed = False, p_policy = None, p_reason = ''IAM service error'',
                p_error = Some message\<rparr>)"

text \<open>\<^verbatim>\<open>!permissionResult || !permissionResult.allowed\<close>\<close>

definition denied :: "permission option \<Rightarrow> bool" where
  "denied r = (case r of None \<Rightarrow> True | Some p \<Rightarrow> \<not> p_allowed p)"

section \<open>The metadata catalog\<close>

record Bucket =
  b_id :: string
  b_name :: string
  b_region :: string
  b_versioningEnabled :: bool
  b_ownerId :: string

record acl_grant =
  grantee_id :: string
  grantee_displayName :: string
  grantee_type :: string
  grant_permission :: string

record acl =
  acl_owner_id :: string
  acl_owner_displayName :: string
  acl_grants :: "acl_grant list"

text \<open>
  A row of \<^verbatim>\<open>s3_objects\<close>.  The attribute \<^verbatim>\<open>bucketName\<close> of the model is virtual: it is
  no column, so a row does not have it.
\<close>

record S3Object =
  o_id :: string
  o_bucketId :: string
  o_key :: string
  o_versionId :: string
  o_isLatest :: bool
  o_size :: nat
  o_contentType :: string
  o_etag :: string
  o_metadata :: "(string \<times> string) list"
  o_acl :: "acl option"
  o_storagePath :: string
  o_ownerId :: string
  o_updatedAt :: string

text \<open>
  An access log entry; the model declares \<^verbatim>\<open>httpMethod\<close>, \<^verbatim>\<open>httpStatus\<close> and
  \<^verbatim>\<open>allowed\<close> with \<^verbatim>\<open>allowNull: false\<close> and no default.
\<close>

record AccessLog =
  l_userId :: string
  l_action :: string
  l_resource :: string
  l_httpMethod :: "string option"
  l_httpStatus :: "nat option"
  l_allowed :: "bool option"

record state =
  buckets :: "Bucket list"
  objects :: "S3Object list"
  accessLogs :: "AccessLog list"
  store :: filesystem

definition Bucket_findOne :: "state \<Rightarrow> string \<Rightarrow> Bucket option" where
  "Bucket_findOne st name = find (\<lambda>b. b_name b = name) (buckets st)"

definition S3Object_findOne :: "state \<Rightarrow> (S3Object \<Rightarrow> bool) \<Rightarrow> S3Object option" where
  "S3Object_findOne st wh = find wh (objects st)"

definition S3Object_findAll :: "state \<Rightarrow> (S3Object \<Rightarrow> bool) \<Rightarrow> S3Object list" where
  "S3Object_findAll st wh = filter wh (objects st)"

definition S3Object_update ::
  "state \<Rightarrow> (S3Object \<Rightarrow> S3Object) \<Rightarrow> (S3Object \<Rightarrow> bool) \<Rightarrow> state" where
  "S3Object_update st upd wh =
     st\<lparr>objects := map (\<lambda>r. if wh r then upd r else r) (objects st)\<rparr>"

definition S3Object_destroy :: "state \<Rightarrow> S3Object \<Rightarrow> state" where
  "S3Object_destroy st obj = st\<lparr>objects := filter (\<lambda>r. o_id r \<noteq> o_id obj) (objects st)\<rparr>"

definition S3Object_create :: "state \<Rightarrow> S3Object \<Rightarrow> error + state" where
  "S3Object_create st row =
     (if length (o_key row) < 1 \<or> length (o_key row) > 1024
      then Inl (SequelizeValidationError ''Validation len on key failed'')
      else Inr (st\<lparr>objects := objects st @ [row]\<rparr>))"

definition AccessLog_create :: "state \<Rightarrow> AccessLog \<Rightarrow> error + state" where
  "AccessLog_create st entry =
     (if l_httpMethod entry = None \<or> l_httpStatus entry = None \<or> l_allowed entry = None
      then Inl (SequelizeValidationError ''notNull Violation'')
      else Inr (st\<lparr>accessLogs := accessLogs st @ [entry]\<rparr>))"

text \<open>
  What the service needs beside the state: the storage provider, the IAM client, the
  database's \<^verbatim>\<open>LIKE\<close> (subject first, pattern second), and the catalog's answer to a query on the virtual attribute,
  \<^verbatim>\<open>S3Object.findOne({ where: { bucketName, key } })\<close>, which is a matter of the ORM and
  the database: an error (\<open>Inl\<close>), no row, or a row.  What a request draws afresh is in
  \<open>fresh\<close>: the clock and the two UUIDs that \<^verbatim>\<open>create\<close> defaults \<^verbatim>\<open>id\<close> and \<^verbatim>\<open>versionId\<close> to.
\<close>

record env =
  storageProvider :: provider
  iamClient :: iam_client
  findByBucketName :: "S3Object list \<Rightarrow> string \<Rightarrow> string \<Rightarrow> string + S3Object option"
  sqlLike :: "string \<Rightarrow> string \<Rightarrow> bool"

record fresh =
  now :: string
  newId :: string
  newVersionId :: string

section \<open>BucketService\<close>

record bucketData =
  bd_name :: string
  bd_region :: "string option"
  bd_versioningEnabled :: "bool option"

definition createBucket ::
  "fresh \<Rightarrow> state \<Rightarrow> bucketData \<Rightarrow> string \<Rightarrow> (error + Bucket) \<times> state" where
  "createBucket fr st data userId =
     (if \<not> validateBucketName (bd_name data)
      then (Inl (AppError ''Invalid bucket name'' 400 ''INVALID_BUCKET_NAME''), st)
      else case Bucket_findOne st (bd_name data) of
        Some existing \<Rightarrow> (Inl (AppError ''Bucket already exists'' 409 ''BUCKET_ALREADY_EXISTS''), st)
      | None \<Rightarrow>
          let bucket = \<lparr>b_id = newId fr, b_name = bd_name data,
                b_region = orDefault (bd_region data) ''us-east-1'',
                b_versioningEnabled =
                  (case bd_versioningEnabled data of None \<Rightarrow> False | Some v \<Rightarrow> v),
                b_ownerId = userId\<rparr>
          in (Inr bucket, st\<lparr>buckets := buckets st @ [bucket]\<rparr>))"

section \<open>ObjectService\<close>

text \<open>
  \<^verbatim>\<open>_logAccess\<close> creates an access log entry from user, action, resource and status (no
  attribute of the model) and swallows a failure of the creation.
\<close>

definition logAccess :: "state \<Rightarrow> string \<Rightarrow> string \<Rightarrow> string \<Rightarrow> string \<Rightarrow> string \<Rightarrow> state" where
  "logAccess st userId action bucketName objectKey status =
     (case AccessLog_create st
             \<lparr>l_userId = userId, l_action = action,
              l_resource = bucketName @ ''/'' @ objectKey,
              l_httpMethod = None, l_httpStatus = None, l_allowed = None\<rparr> of
        Inl e \<Rightarrow> st
      | Inr st' \<Rightarrow> st')"

definition bucketNotFound :: error where
  "bucketNotFound = AppError ''Bucket not found'' 404 ''BUCKET_NOT_FOUND''"

definition accessDenied :: error where
  "accessDenied = AppError ''Access denied'' 403 ''ACCESS_DENIED''"

definition objectNotFound :: error where
  "objectNotFound = AppError ''Object not found'' 404 ''OBJECT_NOT_FOUND''"

record upload_metadata =
  um_contentType :: "string option"
  um_userMetadata :: "(string \<times> string) list option"

definition userMetadataOr :: "(string \<times> string) list option \<Rightarrow> (string \<times> string) list" where
  "userMetadataOr m = (case m of None \<Rightarrow> [] | Some kv \<Rightarrow> kv)"

text \<open>The metadata that \<^verbatim>\<open>uploadObject\<close> hands to the provider:
  \<^verbatim>\<open>{ contentType: metadata.contentType || 'application/octet-stream',
  userMetadata: metadata.userMetadata || {} }\<close>.\<close>

definition storedMetadata :: "upload_metadata \<Rightarrow> jsonmeta" where
  "storedMetadata metadata =
     emptyMeta\<lparr>
       m_contentType := Some (orDefault (um_contentType metadata) ''application/octet-stream''),
       m_userMetadata := Some (userMetadataOr (um_userMetadata metadata))\<rparr>"

text \<open>
  The catalog half of \<^verbatim>\<open>uploadObject\<close>, after the bytes are stored.  With versioning, every
  row of the key stops being the latest.  Without, the row that the query on the virtual
  attribute finds is to be removed; the call \<^verbatim>\<open>storageProvider.delete(...)\<close> names a method
  the provider does not have, which is a \<open>TypeError\<close>.
\<close>

definition handleVersioning ::
  "env \<Rightarrow> fresh \<Rightarrow> state \<Rightarrow> Bucket \<Rightarrow> string \<Rightarrow> string \<Rightarrow> error + state" where
  "handleVersioning ev fr st bucket bucketName key =
     (if b_versioningEnabled bucket then
        Inr (S3Object_update st (\<lambda>r. r\<lparr>o_isLatest := False, o_updatedAt := now fr\<rparr>)
               (\<lambda>r. o_bucketId r = b_id bucket \<and> o_key r = key))
      else
        (case findByBucketName ev (objects st) bucketName key of
           Inl message \<Rightarrow> Inl (SequelizeDatabaseError message)
         | Inr None \<Rightarrow> Inr st
         | Inr (Some existingObject) \<Rightarrow>
             Inl (TypeError ''storageProvider.delete is not a function'')))"

definition uploadObject ::
  "env \<Rightarrow> fresh \<Rightarrow> state \<Rightarrow> string \<Rightarrow> string \<Rightarrow> bytes \<Rightarrow> upload_metadata \<Rightarrow> string
     \<Rightarrow> (error + S3Object) \<times> state" where
  "uploadObject ev fr st bucketName key data metadata userId =
     (case Bucket_findOne st bucketName of
        None \<Rightarrow> (Inl bucketNotFound, st)
      | Some bucket \<Rightarrow>
          if denied (IAMService_checkPermission (iamClient ev) userId ''write'' ''object''
                       (bucketName @ ''/'' @ key))
          then (Inl accessDenied, st)
          else
            (case StorageProvider_putObject (storageProvider ev) (now fr) (store st)
                    bucketName key (Buffer data) (storedMetadata metadata) of
               (Inl e, fs') \<Rightarrow> (Inl e, st\<lparr>store := fs'\<rparr>)
             | (Inr result, fs') \<Rightarrow>
                 let st1 = st\<lparr>store := fs'\<rparr> in
                 (case handleVersioning ev fr st1 bucket bucketName key of
                    Inl e \<Rightarrow> (Inl e, st1)
                  | Inr st2 \<Rightarrow>
                      let s3Object =
                            \<lparr>o_id = newId fr,
                             o_bucketId = b_id bucket,
                             o_key = key,
                             o_versionId = newVersionId fr,
                             o_isLatest = True,
                             o_size = length data,
                             o_contentType =
                               orDefault (um_contentType metadata) ''application/octet-stream'',
                             o_etag = r_etag result,
                             o_metadata = userMetadataOr (um_userMetadata metadata),
                             o_acl = None,
                             o_storagePath = bucketName @ ''/'' @ key,
                             o_ownerId = userId,
                             o_updatedAt = now fr\<rparr>
                      in (case S3Object_create st2 s3Object of
                            Inl e \<Rightarrow> (Inl e, st2)
                          | Inr st3 \<Rightarrow>
                              (Inr s3Object,
                               logAccess st3 userId ''PUT'' bucketName key ''SUCCESS'')))))"

text \<open>
  The row a download, a metadata read or a delete is about: the key of the bucket, at the
  version asked for when one is given (a non-empty string), else the latest.
\<close>

definition whereCondition :: "string \<Rightarrow> string \<Rightarrow> string option \<Rightarrow> S3Object \<Rightarrow> bool" where
  "whereCondition bucketId key versionId r =
     (o_bucketId r = bucketId \<and> o_key r = key \<and>
      (case versionId of
         None \<Rightarrow> o_isLatest r
       | Some v \<Rightarrow> if truthy v then o_versionId r = v else o_isLatest r))"



record list_options =
  lo_prefix :: "string option"
  lo_delimiter :: "string option"
  lo_marker :: "string option"
  lo_maxKeys :: "nat option"
  lo_versions :: "bool option"

record list_entry =
  e_key :: string
  e_size :: nat
  e_etag :: string
  e_lastModified :: string
  e_storageClass :: string

record list_result =
  contents :: "list_entry list"
  commonPrefixes :: "string list"
  isTruncated :: bool
  nextMarker :: "string option"

definition optString :: "string option \<Rightarrow> string" where
  "optString v = (case v of None \<Rightarrow> [] | Some s \<Rightarrow> s)"

definition maxKeysOf :: "list_options \<Rightarrow> nat" where
  "maxKeysOf options = (case lo_maxKeys options of None \<Rightarrow> 1000 | Some n \<Rightarrow> n)"

definition versionsOf :: "list_options \<Rightarrow> bool" where
  "versionsOf options = (case lo_versions options of None \<Rightarrow> False | Some v \<Rightarrow> v)"

text \<open>
  The rows that the query of \<^verbatim>\<open>listObjects\<close> returns: the bucket's rows (the latest only,
  unless versions are asked for) whose key matches the prefix pattern and lies after the
  marker, in ascending key order (taken to be the order of the code units), cut at
  \<^verbatim>\<open>Math.min(parseInt(maxKeys), 1000)\<close>.
\<close>

definition listQuery :: "env \<Rightarrow> state \<Rightarrow> Bucket \<Rightarrow> list_options \<Rightarrow> S3Object list" where
  "listQuery ev st bucket options =
     (let prefix = optString (lo_prefix options);
          marker = optString (lo_marker options)
      in take (min (maxKeysOf options) 1000)
           (sort_key o_key
              (S3Object_findAll st
                 (\<lambda>r. o_bucketId r = b_id bucket \<and>
                      (versionsOf options \<or> o_isLatest r) \<and>
                      (\<not> truthy prefix \<or> sqlLike ev (o_key r) (prefix @ ''%'')) \<and>
                      (\<not> truthy marker \<or> o_key r > marker)))))"

definition delimiterIndex :: "string \<Rightarrow> string \<Rightarrow> S3Object \<Rightarrow> nat option" where
  "delimiterIndex prefix delimiter obj = indexOf (drop (length prefix) (o_key obj)) delimiter"

definition commonPrefixOf :: "string \<Rightarrow> S3Object \<Rightarrow> nat \<Rightarrow> string" where
  "commonPrefixOf prefix obj i = prefix @ take (i + 1) (drop (length prefix) (o_key obj))"

definition firstOccurrences :: "string list \<Rightarrow> string list" where
  "firstOccurrences xs = rev (remdups (rev xs))"

definition toEntry :: "S3Object \<Rightarrow> list_entry" where
  "toEntry obj = \<lparr>e_key = o_key obj, e_size = o_size obj, e_etag = o_etag obj,
                  e_lastModified = o_updatedAt obj, e_storageClass = ''STANDARD''\<rparr>"

definition listObjects ::
  "env \<Rightarrow> state \<Rightarrow> string \<Rightarrow> string \<Rightarrow> list_options \<Rightarrow> (error + list_result) \<times> state" where
  "listObjects ev st bucketName userId options =
     (case Bucket_findOne st bucketName of
        None \<Rightarrow> (Inl bucketNotFound, st)
      | Some bucket \<Rightarrow>
          if denied (IAMService_checkPermission (iamClient ev) userId ''read'' ''bucket'' bucketName)
          then (Inl accessDenied, st)
          else
            let prefix = optString (lo_prefix options);
                delimiter = optString (lo_delimiter options);
                objs = listQuery ev st bucket options;
                folders = List.map_filter
                            (\<lambda>obj. map_option (commonPrefixOf prefix obj)
                                     (delimiterIndex prefix delimiter obj)) objs;
                direct = filter (\<lambda>obj. delimiterIndex prefix delimiter obj = None) objs
            in (Inr \<lparr>contents = map toEntry (if truthy delimiter then direct else objs),
                     commonPrefixes = (if truthy delimiter then firstOccurrences folders else []),
                     isTruncated = (length objs = maxKeysOf options),
                     nextMarker = (if length objs > 0 then Some (o_key (last objs)) else None)\<rparr>,
                st))"

text \<open>The loop of \<^verbatim>\<open>deleteObject\<close>: for each row found, the bytes at (bucket, key) are
  deleted, then the row is destroyed.\<close>

fun deleteLoop ::
  "provider \<Rightarrow> string \<Rightarrow> string \<Rightarrow> S3Object list \<Rightarrow> state \<Rightarrow> (error + unit) \<times> state" where
  "deleteLoop pr bucketName key [] st = (Inr (), st)"
| "deleteLoop pr bucketName key (obj # objs) st =
     (case StorageProvider_deleteObject pr (store st) bucketName key of
        (Inl e, fs') \<Rightarrow> (Inl e, st\<lparr>store := fs'\<rparr>)
      | (Inr ok, fs') \<Rightarrow>
          deleteLoop pr bucketName key objs (S3Object_destroy (st\<lparr>store := fs'\<rparr>) obj))"

definition deleteObject ::
  "env \<Rightarrow> state \<Rightarrow> string \<Rightarrow> string \<Rightarrow> string \<Rightarrow> string option \<Rightarrow> (error + unit) \<times> state" where
  "deleteObject ev st bucketName key userId versionId =
     (case Bucket_findOne st bucketName of
        None \<Rightarrow> (Inl bucketNotFound, st)
      | Some bucket \<Rightarrow>
          if denied (IAMService_checkPermission (iamClient ev) userId ''delete'' ''object''
                       (bucketName @ ''/'' @ key))
          then (Inl accessDenied, logAccess st userId ''DELETE'' bucketName key ''DENIED'')
          else
            let objectsToDelete = S3Object_findAll st (whereCondition (b_id bucket) key versionId)
            in if length objectsToDelete = 0
               then (Inl objectNotFound, logAccess st userId ''DELETE'' bucketName key ''NOT_FOUND'')
               else
                 (case deleteLoop (storageProvider ev) bucketName key objectsToDelete st of
                    (Inl e, st') \<Rightarrow> (Inl e, st')
                  | (Inr u, st') \<Rightarrow>
                      (Inr (), logAccess st' userId ''DELETE'' bucketName key ''SUCCESS'')))"

definition contentBytes :: "provider \<Rightarrow> content \<Rightarrow> bytes" where
  "contentBytes pr c = (case c of Raw b \<Rightarrow> b | Json m \<Rightarrow> jsonStringify pr m)"

definition copyObject ::
  "env \<Rightarrow> fresh \<Rightarrow> state \<Rightarrow> string \<Rightarrow> string \<Rightarrow> string \<Rightarrow> string \<Rightarrow> string
     \<Rightarrow> (error + S3Object) \<times> state" where
  "copyObject ev fr st sourceBucket sourceKey destBucket destKey userId =
     (case Bucket_findOne st sourceBucket of
        None \<Rightarrow> (Inl (AppError ''Source bucket not found'' 404 ''SOURCE_BUCKET_NOT_FOUND''), st)
      | Some sourceBucketObj \<Rightarrow>
          (case Bucket_findOne st destBucket of
             None \<Rightarrow>
               (Inl (AppError ''Destination bucket not found'' 404 ''DEST_BUCKET_NOT_FOUND''), st)
           | Some destBucketObj \<Rightarrow>
               if denied (IAMService_checkPermission (iamClient ev) userId ''read'' ''object''
                            (sourceBucket @ ''/'' @ sourceKey))
               then (Inl (AppError ''Access denied to source object'' 403 ''ACCESS_DENIED''), st)
               else if denied (IAMService_checkPermission (iamClient ev) userId ''write''
                                 ''object'' (destBucket @ ''/'' @ destKey))
               then (Inl (AppError ''Access denied to destination'' 403 ''ACCESS_DENIED''), st)
               else
                 (case S3Object_findOne st
                         (\<lambda>r. o_bucketId r = b_id sourceBucketObj \<and> o_key r = sourceKey \<and>
                              o_isLatest r) of
                    None \<Rightarrow>
                      (Inl (AppError ''Source object not found'' 404 ''SOURCE_OBJECT_NOT_FOUND''),
                       st)
                  | Some sourceObj \<Rightarrow>
                      (case StorageProvider_getObject (storageProvider ev) (store st)
                              sourceBucket sourceKey of
                         Inl e \<Rightarrow> (Inl e, st)
                       | Inr sourceData \<Rightarrow>
                           uploadObject ev fr st destBucket destKey
                             (contentBytes (storageProvider ev) (g_stream sourceData))
                             \<lparr>um_contentType = Some (o_contentType sourceObj),
                              um_userMetadata = Some (o_metadata sourceObj)\<rparr>
                             userId))))"

definition latestOf :: "state \<Rightarrow> Bucket \<Rightarrow> string \<Rightarrow> S3Object option" where
  "latestOf st bucket key =
     S3Object_findOne st (\<lambda>r. o_bucketId r = b_id bucket \<and> o_key r = key \<and> o_isLatest r)"

definition defaultAcl :: "string \<Rightarrow> acl" where
  "defaultAcl userId =
     \<lparr>acl_owner_id = userId, acl_owner_displayName = ''Object Owner'',
      acl_grants =
        [\<lparr>grantee_id = userId, grantee_displayName = ''Object Owner'',
          grantee_type = ''CanonicalUser'', grant_permission = ''FULL_CONTROL''\<rparr>]\<rparr>"

definition getObjectAcl ::
  "env \<Rightarrow> state \<Rightarrow> string \<Rightarrow> string \<Rightarrow> string \<Rightarrow> (error + acl) \<times> state" where
  "getObjectAcl ev st bucketName key userId =
     (case Bucket_findOne st bucketName of
        None \<Rightarrow> (Inl bucketNotFound, st)
      | Some bucket \<Rightarrow>
          if denied (IAMService_checkPermission (iamClient ev) userId ''read'' ''object''
                       (bucketName @ ''/'' @ key))
          then (Inl accessDenied, st)
          else
            (case latestOf st bucket key of
               None \<Rightarrow> (Inl objectNotFound, st)
             | Some s3Object \<Rightarrow>
                 (Inr (case o_acl s3Object of Some a \<Rightarrow> a | None \<Rightarrow> defaultAcl userId),
                  logAccess st userId ''GetObjectACL'' bucketName key ''success'')))"

text \<open>\<open>grants\<close> is \<open>None\<close> when the request's value is not an array.\<close>

definition updateObjectAcl ::
  "env \<Rightarrow> fresh \<Rightarrow> state \<Rightarrow> string \<Rightarrow> string \<Rightarrow> acl_grant list option \<Rightarrow> string
     \<Rightarrow> (error + acl) \<times> state" where
  "updateObjectAcl ev fr st bucketName key grants userId =
     (case Bucket_findOne st bucketName of
        None \<Rightarrow> (Inl bucketNotFound, st)
      | Some bucket \<Rightarrow>
          if denied (IAMService_checkPermission (iamClient ev) userId ''write'' ''object''
                       (bucketName @ ''/'' @ key))
          then (Inl accessDenied, st)
          else
            (case latestOf st bucket key of
               None \<Rightarrow> (Inl objectNotFound, st)
             | Some s3Object \<Rightarrow>
                 (case grants of
                    None \<Rightarrow> (Inl (AppError ''Invalid grants format'' 400 ''INVALID_GRANTS''), st)
                  | Some gs \<Rightarrow>
                      let a = \<lparr>acl_owner_id = userId, acl_owner_displayName = ''Object Owner'',
                                acl_grants = gs\<rparr>;
                          st1 = S3Object_update st
                                  (\<lambda>r. r\<lparr>o_acl := Some a, o_updatedAt := now fr\<rparr>)
                                  (\<lambda>r. o_id r = o_id s3Object)
                      in (Inr a, logAccess st1 userId ''PutObjectACL'' bucketName key ''success''))))"

section \<open>The copy handler of the object controller\<close>

text \<open>
  \<^verbatim>\<open>copySource.match(/^\/([^\/]+)\/(.+)$/)\<close>: a slash, a non-empty bucket name without a
  slash, a slash, and a non-empty key to the end of the string; the dot of the pattern
  matches no line terminator.
\<close>

definition lineTerminator :: "char \<Rightarrow> bool" where
  "lineTerminator c = (c = CHR 0x0A \<or> c = CHR 0x0D)"

definition parseCopySource :: "string \<Rightarrow> (string \<times> string) option" where
  "parseCopySource copySource =
     (case copySource of
        [] \<Rightarrow> None
      | c # rest \<Rightarrow>
          if c \<noteq> CHR ''/'' then None
          else
            let sourceBucket = takeWhile (\<lambda>x. x \<noteq> CHR ''/'') rest;
                afterBucket = dropWhile (\<lambda>x. x \<noteq> CHR ''/'') rest
            in if sourceBucket = [] then None
               else (case afterBucket of
                       [] \<Rightarrow> None
                     | slash # sourceKey \<Rightarrow>
                         if sourceKey = [] \<or> list_ex lineTerminator sourceKey then None
                         else Some (sourceBucket, sourceKey)))"

datatype response = Respond nat string | Created S3Object | Next error

definition copyObjectHandler ::
  "env \<Rightarrow> fresh \<Rightarrow> state \<Rightarrow> string \<Rightarrow> string \<Rightarrow> string option \<Rightarrow> string \<Rightarrow> response \<times> state" where
  "copyObjectHandler ev fr st bucketName key copySource userId =
     (if \<not> truthy (optString copySource)
      then (Respond 400 ''Missing required parameter: copySource'', st)
      else
        (case parseCopySource (optString copySource) of
           None \<Rightarrow>
             (Respond 400 ''Invalid copy source format. Should be /sourceBucket/sourceKey'', st)
         | Some (sourceBucket, sourceKey) \<Rightarrow>
             if sourceBucket = bucketName \<and> sourceKey = key
             then (Respond 400 ''Source and destination cannot be the same'', st)
             else
               (case copyObject ev fr st sourceBucket sourceKey bucketName key userId of
                  (Inl e, st') \<Rightarrow> (Next e, st')
                | (Inr copiedObject, st') \<Rightarrow> (Created copiedObject, st'))))"

section \<open>Sample values\<close>


definition sampleProvider :: provider where
  "sampleProvider =
     \<lparr>basePath = ''./storage'', md5 = (\<lambda>b. ''md5:'' @ b), jsonParse = (\<lambda>b. None),
      jsonStringify = (\<lambda>m. ''{}'')\<rparr>"

definition lookupByStoragePath ::
  "S3Object list \<Rightarrow> string \<Rightarrow> string \<Rightarrow> string + S3Object option" where
  "lookupByStoragePath rows bucketName key =
     Inr (find (\<lambda>r. o_storagePath r = bucketName @ ''/'' @ key \<and> o_key r = key) rows)"

definition sampleEnv :: env where
  "sampleEnv =
     \<lparr>storageProvider = sampleProvider, iamClient = simulatedClient,
      findByBucketName = lookupByStoragePath,
      sqlLike = (\<lambda>subject pattern. startsWith subject (butlast pattern))\<rparr>"


definition sampleBucket :: "bool \<Rightarrow> Bucket" where
  "sampleBucket versioning =
     \<lparr>b_id = ''b-1'', b_name = ''my-bucket'', b_region = ''us-east-1'',
      b_versioningEnabled = versioning, b_ownerId = ''admin-user''\<rparr>"

definition emptyStore :: filesystem where
  "emptyStore = \<lparr>files = Map.empty, readonly = {}\<rparr>"

definition sampleState :: "bool \<Rightarrow> state" where
  "sampleState versioning =
     \<lparr>buckets = [sampleBucket versioning], objects = [], accessLogs = [], store = emptyStore\<rparr>"

definition sampleFresh :: "string \<Rightarrow> fresh" where
  "sampleFresh n = \<lparr>now = ''2025-01-01T00:00:0'' @ n @ ''Z'', newId = ''id-'' @ n,
                    newVersionId = ''v-'' @ n\<rparr>"

definition noMetadata :: upload_metadata where
  "noMetadata = \<lparr>um_contentType = None, um_userMetadata = None\<rparr>"

definition sampleRow :: "string \<Rightarrow> bytes \<Rightarrow> bool \<Rightarrow> string \<Rightarrow> S3Object" where
  "sampleRow n data latest updated =
     \<lparr>o_id = ''id-'' @ n, o_bucketId = ''b-1'', o_key = ''a.txt'', o_versionId = ''v-'' @ n,
      o_isLatest = latest, o_size = length data, o_contentType = ''application/octet-stream'',
      o_etag = ''md5:'' @ data, o_metadata = [], o_acl = None,
      o_storagePath = ''my-bucket/a.txt'', o_ownerId = ''admin-user'',
      o_updatedAt = ''2025-01-01T00:00:0'' @ updated @ ''Z''\<rparr>"

text \<open>The history: \<^verbatim>\<open>a.txt\<close> is put twice, then deleted without a version id.\<close>

definition scenarioPut1 :: "bool \<Rightarrow> (error + S3Object) \<times> state" where
  "scenarioPut1 versioning =
     uploadObject sampleEnv (sampleFresh ''1'') (sampleState versioning)
       ''my-bucket'' ''a.txt'' ''v1'' noMetadata ''admin-user''"

definition scenarioPut2 :: "bool \<Rightarrow> (error + S3Object) \<times> state" where
  "scenarioPut2 versioning =
     uploadObject sampleEnv (sampleFresh ''2'') (snd (scenarioPut1 versioning))
       ''my-bucket'' ''a.txt'' ''v2'' noMetadata ''admin-user''"

definition scenarioDelete :: "(error + unit) \<times> state" where
  "scenarioDelete =
     deleteObject sampleEnv (snd (scenarioPut2 True)) ''my-bucket'' ''a.txt'' ''admin-user'' None"

section \<open>Properties of bucket name validation\<close>

lemma bucketNameRegex_chars:
  assumes "bucketNameRegex_test name" and "x \<in> set name"
  shows "isLowerAlnum x \<or> x = CHR ''-''"
proof -
  from assms(1) obtain c cs where nm: "name = c # cs" and c: "isLowerAlnum c"
    and ne: "cs \<noteq> []" and l: "isLowerAlnum (last cs)"
    and mid: "list_all (\<lambda>x. isLowerAlnum x \<or> x = CHR ''-'') (butlast cs)"
    by (auto simp: bucketNameRegex_test_def split: list.splits)
  from ne have cs: "cs = butlast cs @ [last cs]" by simp
  from assms(2) nm have "x = c \<or> x \<in> set cs" by auto
  then show ?thesis
  proof
    assume "x = c" with c show ?thesis by simp
  next
    assume "x \<in> set cs"
    then have "x \<in> set (butlast cs) \<or> x = last cs"
      by (subst (asm) cs) auto
    with l mid show ?thesis by (auto simp: list_all_iff)
  qed
qed

lemma dot_not_bucket_char: "\<not> (isLowerAlnum (CHR ''.'') \<or> CHR ''.'' = CHR ''-'')"
  by (simp add: isLowerAlnum_def)

lemma dotted_name_rejected:
  assumes "CHR ''.'' \<in> set name"
  shows "\<not> validateBucketName name"
proof -
  have "\<not> bucketNameRegex_test name"
    using bucketNameRegex_chars [OF _ assms] dot_not_bucket_char by blast
  then show ?thesis by (simp add: validateBucketName_def)
qed

lemma includes_set:
  "str_includes s p \<Longrightarrow> set p \<subseteq> set s"
proof (induction s)
  case Nil
  then show ?case by simp
next
  case (Cons c cs)
  from Cons.prems have "startsWith (c # cs) p \<or> str_includes cs p" by simp
  then show ?case
  proof
    assume "startsWith (c # cs) p"
    then have "p = take (length p) (c # cs)" by (simp add: startsWith_def)
    then have "set p \<subseteq> set (c # cs)" by (metis set_take_subset)
    then show ?thesis .
  next
    assume "str_includes cs p"
    with Cons.IH show ?thesis by auto
  qed
qed

lemma splitOn_no_delim:
  "d \<notin> set s \<Longrightarrow> splitOn d s = [s]"
  by (induction s) auto

lemma bucketNameRegex_intro:
  assumes "2 \<le> length name" and "isLowerAlnum (hd name)" and "isLowerAlnum (last name)"
    and "\<forall>x \<in> set name. isLowerAlnum x \<or> x = CHR ''-''"
  shows "bucketNameRegex_test name"
proof -
  from assms(1) have "name \<noteq> []" and "tl name \<noteq> []"
    by (cases name; force)+
  then obtain c cs where nm: "name = c # cs" and ne: "cs \<noteq> []"
    by (cases name) auto
  have "set (butlast cs) \<subseteq> set name"
    using nm by (auto dest: in_set_butlastD)
  with assms(4) have "list_all (\<lambda>x. isLowerAlnum x \<or> x = CHR ''-'') (butlast cs)"
    by (auto simp: list_all_iff)
  with assms(2,3) nm ne show ?thesis
    by (simp add: bucketNameRegex_test_def)
qed

lemma valid_accept:
  assumes len: "length name = 63"
    and cs: "\<forall>x \<in> set name. isLowerAlnum x \<or> x = CHR ''-''"
    and h: "isLowerAlnum (hd name)" and l: "isLowerAlnum (last name)"
    and dd: "\<not> str_includes name ''--''"
  shows "validateBucketName name"
proof -
  have nodot: "CHR ''.'' \<notin> set name"
    using cs dot_not_bucket_char by blast
  have re: "bucketNameRegex_test name"
    using len h l cs by (intro bucketNameRegex_intro) simp_all
  have "\<not> str_includes name ''..''"
    using includes_set [of name "''..''"] nodot by auto
  moreover have "\<not> ipRegex_test name"
    using splitOn_no_delim [OF nodot] by (simp add: ipRegex_test_def)
  moreover from len have "name \<noteq> []" by auto
  ultimately show ?thesis
    using len re dd by (simp add: validateBucketName_def truthy_def)
qed

text \<open>
  Claim C5.  Bucket name validation rejects every name of at most two characters, accepts
  every name of 63 characters over lowercase letters, digits and hyphens that starts and
  ends with a letter or digit and has no two hyphens in a row, rejects every name of 64
  characters or more, and rejects every name of four dot-separated groups of one to three
  digits, such as \<^verbatim>\<open>192.168.1.1\<close>.  \<^verbatim>\<open>createBucket\<close> turns a rejected name into the
  error of status 400 and creates nothing.
\<close>

theorem validateBucketName_boundaries:
  "(length n2 \<le> 2 \<longrightarrow> \<not> validateBucketName n2) \<and>
   (length n63 = 63 \<and> (\<forall>x \<in> set n63. isLowerAlnum x \<or> x = CHR ''-'') \<and>
      isLowerAlnum (hd n63) \<and> isLowerAlnum (last n63) \<and> \<not> str_includes n63 ''--''
      \<longrightarrow> validateBucketName n63) \<and>
   (64 \<le> length n64 \<longrightarrow> \<not> validateBucketName n64) \<and>
   (digitGroup a \<and> digitGroup b \<and> digitGroup c \<and> digitGroup d
      \<longrightarrow> \<not> validateBucketName (a @ ''.'' @ b @ ''.'' @ c @ ''.'' @ d)) \<and>
   (\<not> validateBucketName (bd_name bucketData) \<longrightarrow>
      createBucket fr st bucketData userId
        = (Inl (AppError ''Invalid bucket name'' 400 ''INVALID_BUCKET_NAME''), st))"
proof (intro conjI impI)
  assume "length n2 \<le> 2"
  then show "\<not> validateBucketName n2" by (simp add: validateBucketName_def)
next
  assume "length n63 = 63 \<and> (\<forall>x \<in> set n63. isLowerAlnum x \<or> x = CHR ''-'') \<and>
      isLowerAlnum (hd n63) \<and> isLowerAlnum (last n63) \<and> \<not> str_includes n63 ''--''"
  then show "validateBucketName n63" by (intro valid_accept) simp_all
next
  assume "64 \<le> length n64"
  then show "\<not> validateBucketName n64" by (simp add: validateBucketName_def)
next
  show "\<not> validateBucketName (a @ ''.'' @ b @ ''.'' @ c @ ''.'' @ d)"
    by (rule dotted_name_rejected) simp
next
  assume "\<not> validateBucketName (bd_name bucketData)"
  then show "createBucket fr st bucketData userId
        = (Inl (AppError ''Invalid bucket name'' 400 ''INVALID_BUCKET_NAME''), st)"
    by (simp add: createBucket_def)
qed

theorem validateBucketName_boundaries_witness:
  "\<not> validateBucketName ''ab'' \<and>
   validateBucketName (replicate 63 (CHR ''a'')) \<and>
   \<not> validateBucketName (replicate 64 (CHR ''a'')) \<and>
   \<not> validateBucketName ''192.168.1.1'' \<and>
   createBucket (sampleFresh ''1'') (sampleState False)
     \<lparr>bd_name = ''192.168.1.1'', bd_region = None, bd_versioningEnabled = None\<rparr> ''admin-user''
     = (Inl (AppError ''Invalid bucket name'' 400 ''INVALID_BUCKET_NAME''), sampleState False)"
proof -
  have g: "digitGroup ''192''" "digitGroup ''168''" "digitGroup ''1''"
    by (simp_all add: digitGroup_def isDigit_def)
  have a: "isLowerAlnum (CHR ''a'')" by (simp add: isLowerAlnum_def)
  have r: "\<not> str_includes (replicate n (CHR ''a'')) ''--''" for n
    by (induction n) (simp_all add: startsWith_def)
  have h: "hd (replicate 63 (CHR ''a'')) = CHR ''a''" "last (replicate 63 (CHR ''a'')) = CHR ''a''"
    by (simp_all add: hd_replicate last_replicate)
  show ?thesis
    using validateBucketName_boundaries [of "''ab''" "replicate 63 (CHR ''a'')"
        "replicate 64 (CHR ''a'')" "''192''" "''168''" "''1''" "''1''"
        "\<lparr>bd_name = ''192.168.1.1'', bd_region = None, bd_versioningEnabled = None\<rparr>"
        "sampleFresh ''1''" "sampleState False" "''admin-user''"] g a r h
    by simp
qed

section \<open>Properties of the storage providers\<close>







lemma deleteAt_writable:
  assumes "readonly fs = {}"
  shows "fst (deleteAt fs p) = Inr True"
  using assms
  by (auto simp: deleteAt_def fs_unlink_def Let_def split: option.splits errno.splits sum.splits)

lemma sample_object_path:
  "getObjectPath sampleProvider ''my-bucket'' ''a.txt'' = ''storage/my-bucket/a.txt''"
  by (simp add: getObjectPath_def sampleProvider_def sanitizePath_def reservedChar_def
        path_join_def path_normalize_def)

lemma sample_path:
  "storageObjectPath sampleProvider (generateStorageKey ''my-bucket'' ''a.txt'')
     = ''storage/my-bucket/a.txt''"
  by (simp add: storageObjectPath_def generateStorageKey_def sampleProvider_def path_join_def
        path_normalize_def)



section \<open>Properties of the IAM service\<close>






lemma admin_allowed:
  "\<not> denied (IAMService_checkPermission simulatedClient ''admin-user'' a r c)"
  "\<not> denied (IAMService_checkPermission simulatedClient ''admin-123'' a r c)"
  by (simp_all add: denied_def IAMService_checkPermission_def simulatedClient_def
        IAMClient_checkPermission_def isAdminUser_def Let_def)

lemma logAccess_id: "logAccess st u a b k s = st"
  by (simp add: logAccess_def AccessLog_create_def)




section \<open>Properties of the copy handler\<close>

lemma parseCopySource_nonempty: "parseCopySource src = Some bk \<Longrightarrow> truthy src"
  by (cases src) (auto simp: parseCopySource_def truthy_def)

lemma parseCopySource_canonical:
  assumes "b \<noteq> []" and "CHR ''/'' \<notin> set b" and "k \<noteq> []" and "\<not> list_ex lineTerminator k"
  shows "parseCopySource (''/'' @ b @ ''/'' @ k) = Some (b, k)"
proof -
  have t: "takeWhile (\<lambda>x. x \<noteq> CHR ''/'') (b @ CHR ''/'' # k) = b"
    using assms(2) by (subst takeWhile_append2) auto
  have d: "dropWhile (\<lambda>x. x \<noteq> CHR ''/'') (b @ CHR ''/'' # k) = CHR ''/'' # k"
    using assms(2) by (subst dropWhile_append2) auto
  show ?thesis
    using assms t d by (simp add: parseCopySource_def Let_def)
qed

text \<open>
  Claim C6.  A copy request whose source bucket and key, as read from \<^verbatim>\<open>copySource\<close>,
  equal the destination bucket and key is answered with status 400 and the message that
  source and destination cannot be the same, and the state is left as it was: no object
  version is created.  This is so in particular for the source \<^verbatim>\<open>/bucket/key\<close> of any
  destination whose bucket name is non-empty and free of slashes and whose key is
  non-empty and free of line terminators.
\<close>

theorem copy_onto_itself_rejected:
  "(parseCopySource src = Some (bucketName, key) \<longrightarrow>
      copyObjectHandler ev fr st bucketName key (Some src) userId =
        (Respond 400 ''Source and destination cannot be the same'', st)) \<and>
   (bucketName \<noteq> [] \<and> CHR ''/'' \<notin> set bucketName \<and> key \<noteq> [] \<and>
    \<not> list_ex lineTerminator key \<longrightarrow>
      copyObjectHandler ev fr st bucketName key (Some (''/'' @ bucketName @ ''/'' @ key)) userId =
        (Respond 400 ''Source and destination cannot be the same'', st))"
proof (intro conjI impI)
  assume p: "parseCopySource src = Some (bucketName, key)"
  with parseCopySource_nonempty [OF p]
  show "copyObjectHandler ev fr st bucketName key (Some src) userId =
        (Respond 400 ''Source and destination cannot be the same'', st)"
    by (simp add: copyObjectHandler_def optString_def)
next
  assume "bucketName \<noteq> [] \<and> CHR ''/'' \<notin> set bucketName \<and> key \<noteq> [] \<and>
    \<not> list_ex lineTerminator key"
  then have p: "parseCopySource (''/'' @ bucketName @ ''/'' @ key) = Some (bucketName, key)"
    by (intro parseCopySource_canonical) simp_all
  then show "copyObjectHandler ev fr st bucketName key
               (Some (''/'' @ bucketName @ ''/'' @ key)) userId =
        (Respond 400 ''Source and destination cannot be the same'', st)"
    by (simp add: copyObjectHandler_def optString_def truthy_def)
qed

theorem copy_onto_itself_rejected_witness:
  "parseCopySource ''/my-bucket/a.txt'' = Some (''my-bucket'', ''a.txt'') \<and>
   copyObjectHandler sampleEnv (sampleFresh ''3'') (snd (scenarioPut1 False))
     ''my-bucket'' ''a.txt'' (Some ''/my-bucket/a.txt'') ''admin-user''
     = (Respond 400 ''Source and destination cannot be the same'', snd (scenarioPut1 False))"
proof -
  have p: "parseCopySource ''/my-bucket/a.txt'' = Some (''my-bucket'', ''a.txt'')"
    by (simp add: parseCopySource_def lineTerminator_def)
  have q: "''my-bucket'' \<noteq> [] \<and> CHR ''/'' \<notin> set ''my-bucket'' \<and> ''a.txt'' \<noteq> [] \<and>
           \<not> list_ex lineTerminator ''a.txt''"
    by (simp add: lineTerminator_def)
  show ?thesis
    using copy_onto_itself_rejected [of "''/my-bucket/a.txt''" "''my-bucket''" "''a.txt''"
        sampleEnv "sampleFresh ''3''" "snd (scenarioPut1 False)" "''admin-user''"] p q
    by simp
qed

section \<open>Properties of ObjectService\<close>







lemma deleteObject_single:
  assumes b: "Bucket_findOne st bucketName = Some bucket"
    and ok: "\<not> denied (IAMService_checkPermission (iamClient ev) userId ''delete'' ''object''
                       (bucketName @ ''/'' @ key))"
    and one: "S3Object_findAll st (whereCondition (b_id bucket) key versionId) = [r]"
    and rw: "readonly (store st) = {}"
  shows "fst (deleteObject ev st bucketName key userId versionId) = Inr () \<and>
         objects (snd (deleteObject ev st bucketName key userId versionId)) =
           filter (\<lambda>x. o_id x \<noteq> o_id r) (objects st)"
proof -
  let ?p = "storageObjectPath (storageProvider ev) (generateStorageKey bucketName key)"
  from deleteAt_writable [OF rw, of ?p] obtain fs' where
    d: "deleteAt (store st) ?p = (Inr True, fs')"
    by (cases "deleteAt (store st) ?p") auto
  show ?thesis
    using b ok one d
    by (simp add: deleteObject_def Let_def StorageProvider_deleteObject_def S3Object_destroy_def
          logAccess_id)
qed

text \<open>The sample history, evaluated.\<close>

lemmas upload_eval =
  uploadObject_def Bucket_findOne_def sampleBucket_def
  sampleEnv_def admin_allowed StorageProvider_putObject_def sample_path Let_def
  putAt_def fs_writeFile_def handleVersioning_def S3Object_update_def S3Object_create_def
  logAccess_id sampleFresh_def sampleProvider_def noMetadata_def storedMetadata_def
  emptyMeta_def orDefault_def userMetadataOr_def generateStorageKey_def
  storageObjectPath_def path_join_def path_normalize_def lookupByStoragePath_def
  sampleRow_def

lemma scenarioPut1_eval:
  "fst (scenarioPut1 v) = Inr (sampleRow ''1'' ''v1'' True ''1'')"
  "objects (snd (scenarioPut1 v)) = [sampleRow ''1'' ''v1'' True ''1'']"
  "buckets (snd (scenarioPut1 v)) = [sampleBucket v]"
  "readonly (store (snd (scenarioPut1 v))) = {}"
  "files (store (snd (scenarioPut1 v))) ''storage/my-bucket/a.txt'' = Some (Raw ''v1'')"
  unfolding scenarioPut1_def
  by (simp_all add: upload_eval sampleState_def emptyStore_def)

lemma scenarioPut2_versioned:
  "fst (scenarioPut2 True) = Inr (sampleRow ''2'' ''v2'' True ''2'')"
  "objects (snd (scenarioPut2 True))
     = [sampleRow ''1'' ''v1'' False ''2'', sampleRow ''2'' ''v2'' True ''2'']"
  "buckets (snd (scenarioPut2 True)) = [sampleBucket True]"
  "readonly (store (snd (scenarioPut2 True))) = {}"
  "files (store (snd (scenarioPut2 True))) ''storage/my-bucket/a.txt'' = Some (Raw ''v2'')"
  unfolding scenarioPut2_def
  by (simp_all add: scenarioPut1_eval upload_eval)

lemma scenarioPut2_unversioned:
  "fst (scenarioPut2 False) = Inl (TypeError ''storageProvider.delete is not a function'')"
  "objects (snd (scenarioPut2 False)) = [sampleRow ''1'' ''v1'' True ''1'']"
  "files (store (snd (scenarioPut2 False))) ''storage/my-bucket/a.txt'' = Some (Raw ''v2'')"
  unfolding scenarioPut2_def
  by (simp_all add: scenarioPut1_eval upload_eval)

lemma scenarioDelete_eval:
  "fst scenarioDelete = Inr ()"
  "objects (snd scenarioDelete) = [sampleRow ''1'' ''v1'' False ''2'']"
proof -
  have "fst scenarioDelete = Inr () \<and>
        objects (snd scenarioDelete) =
          filter (\<lambda>x. o_id x \<noteq> o_id (sampleRow ''2'' ''v2'' True ''2''))
            (objects (snd (scenarioPut2 True)))"
    unfolding scenarioDelete_def
    by (rule deleteObject_single [where bucket = "sampleBucket True"])
       (simp_all add: scenarioPut2_versioned Bucket_findOne_def sampleBucket_def sampleEnv_def
          admin_allowed S3Object_findAll_def whereCondition_def sampleRow_def)
  then show "fst scenarioDelete = Inr ()"
    and "objects (snd scenarioDelete) = [sampleRow ''1'' ''v1'' False ''2'']"
    by (simp_all add: scenarioPut2_versioned sampleRow_def)
qed






lemma listQuery_length:
  "length (listQuery ev st bucket options) \<le> min (maxKeysOf options) 1000"
  unfolding listQuery_def Let_def length_take by (rule min.cobounded2)

text \<open>
  Claim C10.  A catalog listing that returns holds at most \<open>min maxKeys 1000\<close> entries,
  also when the caller asks for more than 1000; it reports \<open>isTruncated\<close> exactly when the
  number of rows the query returned equals the requested \<open>maxKeys\<close> (so never when more
  than 1000 were asked for); and \<open>nextMarker\<close> is the key of the last row returned
  whenever a row was returned, truncated or not.
\<close>

theorem listObjects_page:
  assumes "listObjects ev st bucketName userId options = (Inr r, st')"
  shows "\<exists>bucket. Bucket_findOne st bucketName = Some bucket \<and>
           length (listQuery ev st bucket options) \<le> min (maxKeysOf options) 1000 \<and>
           length (contents r) \<le> min (maxKeysOf options) 1000 \<and>
           isTruncated r = (length (listQuery ev st bucket options) = maxKeysOf options) \<and>
           nextMarker r = (if listQuery ev st bucket options = [] then None
                           else Some (o_key (last (listQuery ev st bucket options)))) \<and>
           (1000 < maxKeysOf options \<longrightarrow> \<not> isTruncated r)"
proof -
  from assms obtain bucket where b: "Bucket_findOne st bucketName = Some bucket"
    by (auto simp: listObjects_def split: option.splits)
  let ?objs = "listQuery ev st bucket options"
  have len: "length ?objs \<le> min (maxKeysOf options) 1000" by (rule listQuery_length)
  from assms b have r: "r = \<lparr>contents = map toEntry
                  (if truthy (optString (lo_delimiter options))
                   then filter (\<lambda>obj. delimiterIndex (optString (lo_prefix options))
                                  (optString (lo_delimiter options)) obj = None) ?objs
                   else ?objs),
             commonPrefixes =
               (if truthy (optString (lo_delimiter options))
                then firstOccurrences
                       (List.map_filter
                          (\<lambda>obj. map_option (commonPrefixOf (optString (lo_prefix options)) obj)
                                   (delimiterIndex (optString (lo_prefix options))
                                      (optString (lo_delimiter options)) obj)) ?objs)
                else []),
             isTruncated = (length ?objs = maxKeysOf options),
             nextMarker = (if length ?objs > 0 then Some (o_key (last ?objs)) else None)\<rparr>"
    by (auto simp: listObjects_def Let_def split: if_splits)
  have "length (contents r) \<le> length ?objs"
    by (simp add: r)
  with len have c: "length (contents r) \<le> min (maxKeysOf options) 1000" by linarith
  show ?thesis
    using b len c by (auto simp: r)
qed

theorem listObjects_page_witness:
  "\<exists>r st'. listObjects sampleEnv (snd (scenarioPut2 True)) ''my-bucket'' ''admin-user''
              \<lparr>lo_prefix = None, lo_delimiter = None, lo_marker = None,
               lo_maxKeys = Some 5000, lo_versions = Some True\<rparr> = (Inr r, st') \<and>
            length (contents r) = 2 \<and> \<not> isTruncated r \<and> nextMarker r = Some ''a.txt''"
proof -
  let ?st = "snd (scenarioPut2 True)"
  let ?o = "\<lparr>lo_prefix = None, lo_delimiter = None, lo_marker = None,
               lo_maxKeys = Some 5000, lo_versions = Some True\<rparr>"
  have b: "Bucket_findOne ?st ''my-bucket'' = Some (sampleBucket True)"
    by (simp add: Bucket_findOne_def scenarioPut2_versioned sampleBucket_def)
  have q: "listQuery sampleEnv ?st (sampleBucket True) ?o
             = [sampleRow ''1'' ''v1'' False ''2'', sampleRow ''2'' ''v2'' True ''2'']"
    by (simp add: listQuery_def S3Object_findAll_def scenarioPut2_versioned optString_def
          truthy_def versionsOf_def maxKeysOf_def sampleBucket_def sampleRow_def)
  obtain r st' where
    l: "listObjects sampleEnv ?st ''my-bucket'' ''admin-user'' ?o = (Inr r, st')"
    and c: "length (contents r) = 2"
    using b q
    by (simp add: listObjects_def sampleEnv_def admin_allowed Let_def optString_def truthy_def
          maxKeysOf_def)
  from listObjects_page [OF l] b q have "\<not> isTruncated r \<and> nextMarker r = Some ''a.txt''"
    by (simp add: maxKeysOf_def sampleRow_def)
  with l c show ?thesis by blast
qed

section \<open>Versions in the catalog\<close>

lemma upload_versioned_objects:
  assumes up: "uploadObject ev fr st b k data metadata u = (Inr row, st')"
    and bk: "Bucket_findOne st b = Some bucket" and v: "b_versioningEnabled bucket"
  shows "objects st' =
           map (\<lambda>r. if o_bucketId r = b_id bucket \<and> o_key r = k
                     then r\<lparr>o_isLatest := False, o_updatedAt := now fr\<rparr> else r) (objects st)
             @ [row]
         \<and> o_bucketId row = b_id bucket \<and> o_key row = k \<and> o_isLatest row
         \<and> o_versionId row = newVersionId fr"
  using up bk v
  by (auto simp: uploadObject_def Let_def logAccess_id handleVersioning_def S3Object_update_def
        S3Object_create_def
        split: option.splits if_splits sum.splits prod.splits)

lemma filter_demoted:
  "filter (\<lambda>r. o_bucketId r = bid \<and> o_key r = k \<and> o_isLatest r)
     (map (\<lambda>r. if o_bucketId r = bid \<and> o_key r = k
               then r\<lparr>o_isLatest := False, o_updatedAt := t\<rparr> else r) rows) = []"
  by (induction rows) auto

lemma filter_fresh_demoted:
  "v \<notin> set (map o_versionId rows) \<Longrightarrow>
   filter (\<lambda>r. o_versionId r = v)
     (map (\<lambda>r. if o_bucketId r = bid \<and> o_key r = k
               then r\<lparr>o_isLatest := False, o_updatedAt := t\<rparr> else r) rows) = []"
  by (induction rows) auto

text \<open>
  Claim C1.  In a bucket without versioning, an upload to a key that already has a row is
  to delete the stored blob of that row, destroy the row and insert the new one, so that
  the key never has more than one row.  The code does not do this: no upload to such a
  bucket removes a row.  Either the upload ends in an error and the catalog is as before,
  or it succeeds, which it only does when the lookup of the existing row found nothing,
  and then the new row is added to all the rows there were.  When the lookup does find a
  row, and the caller is allowed and the bytes are stored, the upload ends with the
  \<open>TypeError\<close> of the call of \<^verbatim>\<open>storageProvider.delete\<close>.
\<close>

theorem unversioned_upload_never_replaces:
  assumes bk: "Bucket_findOne st bucketName = Some bucket"
    and nv: "\<not> b_versioningEnabled bucket"
  shows "(case uploadObject ev fr st bucketName key data metadata userId of
            (Inl e, st') \<Rightarrow> objects st' = objects st
          | (Inr row, st') \<Rightarrow>
              objects st' = objects st @ [row] \<and>
              findByBucketName ev (objects st) bucketName key = Inr None) \<and>
         (findByBucketName ev (objects st) bucketName key = Inr (Some existing) \<and>
          \<not> denied (IAMService_checkPermission (iamClient ev) userId ''write'' ''object''
                      (bucketName @ ''/'' @ key)) \<and>
          fst (StorageProvider_putObject (storageProvider ev) (now fr) (store st) bucketName key
                 (Buffer data) (storedMetadata metadata)) = Inr res
          \<longrightarrow> fst (uploadObject ev fr st bucketName key data metadata userId)
                = Inl (TypeError ''storageProvider.delete is not a function''))"
  using bk nv
  by (auto simp: uploadObject_def Let_def logAccess_id handleVersioning_def
        S3Object_create_def
        split: option.splits if_splits sum.splits prod.splits)

theorem unversioned_upload_never_replaces_witness:
  "fst (scenarioPut1 False) = Inr (sampleRow ''1'' ''v1'' True ''1'') \<and>
   fst (scenarioPut2 False) = Inl (TypeError ''storageProvider.delete is not a function'') \<and>
   objects (snd (scenarioPut2 False)) = [sampleRow ''1'' ''v1'' True ''1''] \<and>
   files (store (snd (scenarioPut2 False))) ''storage/my-bucket/a.txt'' = Some (Raw ''v2'')"
proof -
  let ?st = "snd (scenarioPut1 False)"
  have bk: "Bucket_findOne ?st ''my-bucket'' = Some (sampleBucket False)"
    by (simp add: Bucket_findOne_def scenarioPut1_eval sampleBucket_def)
  have nv: "\<not> b_versioningEnabled (sampleBucket False)"
    by (simp add: sampleBucket_def)
  have found: "findByBucketName sampleEnv (objects ?st) ''my-bucket'' ''a.txt''
                 = Inr (Some (sampleRow ''1'' ''v1'' True ''1''))"
    by (simp add: sampleEnv_def lookupByStoragePath_def scenarioPut1_eval sampleRow_def)
  have ok: "\<not> denied (IAMService_checkPermission (iamClient sampleEnv) ''admin-user''
                       ''write'' ''object'' (''my-bucket'' @ ''/'' @ ''a.txt''))"
    by (simp add: sampleEnv_def admin_allowed)
  obtain res where put: "fst (StorageProvider_putObject (storageProvider sampleEnv)
              (now (sampleFresh ''2'')) (store ?st) ''my-bucket'' ''a.txt'' (Buffer ''v2'')
              (storedMetadata noMetadata)) = Inr res"
    by (simp add: StorageProvider_putObject_def putAt_def fs_writeFile_def scenarioPut1_eval
          Let_def)
  from unversioned_upload_never_replaces [OF bk nv, THEN conjunct2, rule_format,
      of sampleEnv "''a.txt''" "sampleRow ''1'' ''v1'' True ''1''" "''admin-user''"
         "sampleFresh ''2''" "''v2''" noMetadata res] found ok put
  have "fst (scenarioPut2 False) = Inl (TypeError ''storageProvider.delete is not a function'')"
    by (simp add: scenarioPut2_def)
  then show ?thesis
    by (simp add: scenarioPut1_eval scenarioPut2_unversioned)
qed

text \<open>
  Claim C2, as the code has it.  Right after an upload to a bucket with versioning has
  succeeded, exactly one row of the bucket and key is the latest: the row just inserted,
  which carries the version id drawn for it; every row the key had before is kept and is
  no longer the latest; and when the id drawn is borne by no earlier row, the new row is
  the only one with it.  (A later delete of the latest row promotes no other row.)
\<close>

theorem versioned_upload_single_latest:
  assumes up: "uploadObject ev fr st bucketName key data metadata userId = (Inr row, st')"
    and bk: "Bucket_findOne st bucketName = Some bucket"
    and v: "b_versioningEnabled bucket"
  shows "filter (\<lambda>r. o_bucketId r = b_id bucket \<and> o_key r = key \<and> o_isLatest r) (objects st')
           = [row] \<and>
         o_isLatest row \<and> o_versionId row = newVersionId fr \<and>
         objects st' =
           map (\<lambda>r. if o_bucketId r = b_id bucket \<and> o_key r = key
                     then r\<lparr>o_isLatest := False, o_updatedAt := now fr\<rparr> else r) (objects st)
             @ [row] \<and>
         (newVersionId fr \<notin> set (map o_versionId (objects st)) \<longrightarrow>
            filter (\<lambda>r. o_versionId r = newVersionId fr) (objects st') = [row])"
proof -
  note u = upload_versioned_objects [OF up bk v]
  have fresh: "filter (\<lambda>r. o_versionId r = newVersionId fr) (objects st') = [row]"
    if "newVersionId fr \<notin> set (map o_versionId (objects st))"
    using u filter_fresh_demoted [OF that] by simp
  show ?thesis
    using u fresh by (simp add: filter_demoted)
qed

theorem versioned_upload_single_latest_witness:
  "fst (scenarioPut2 True) = Inr (sampleRow ''2'' ''v2'' True ''2'') \<and>
   filter (\<lambda>r. o_bucketId r = ''b-1'' \<and> o_key r = ''a.txt'' \<and> o_isLatest r)
     (objects (snd (scenarioPut2 True))) = [sampleRow ''2'' ''v2'' True ''2''] \<and>
   filter (\<lambda>r. o_versionId r = ''v-2'') (objects (snd (scenarioPut2 True)))
     = [sampleRow ''2'' ''v2'' True ''2'']"
proof -
  have up: "uploadObject sampleEnv (sampleFresh ''2'') (snd (scenarioPut1 True))
              ''my-bucket'' ''a.txt'' ''v2'' noMetadata ''admin-user''
            = (Inr (sampleRow ''2'' ''v2'' True ''2''), snd (scenarioPut2 True))"
    using scenarioPut2_versioned(1) by (simp add: scenarioPut2_def prod_eq_iff)
  have bk: "Bucket_findOne (snd (scenarioPut1 True)) ''my-bucket'' = Some (sampleBucket True)"
    by (simp add: Bucket_findOne_def scenarioPut1_eval sampleBucket_def)
  have v: "b_versioningEnabled (sampleBucket True)"
    by (simp add: sampleBucket_def)
  have fresh: "newVersionId (sampleFresh ''2'')
                 \<notin> set (map o_versionId (objects (snd (scenarioPut1 True))))"
    by (simp add: sampleFresh_def scenarioPut1_eval sampleRow_def)
  note t = versioned_upload_single_latest [OF up bk v]
  have i: "b_id (sampleBucket True) = ''b-1''" and n: "newVersionId (sampleFresh ''2'') = ''v-2''"
    by (simp_all add: sampleBucket_def sampleFresh_def)
  have a: "filter (\<lambda>r. o_bucketId r = ''b-1'' \<and> o_key r = ''a.txt'' \<and> o_isLatest r)
             (objects (snd (scenarioPut2 True))) = [sampleRow ''2'' ''v2'' True ''2'']"
    using t [THEN conjunct1] by (simp only: i)
  have b: "filter (\<lambda>r. o_versionId r = ''v-2'') (objects (snd (scenarioPut2 True)))
             = [sampleRow ''2'' ''v2'' True ''2'']"
    using t [THEN conjunct2, THEN conjunct2, THEN conjunct2, THEN conjunct2, rule_format,
             OF fresh]
    by (simp only: n)
  show ?thesis
    using scenarioPut2_versioned(1) a b by (intro conjI)
qed

text \<open>
  Claim C2 as first stated (in a bucket with versioning, once a key has a version,
  exactly one of its versions is the latest) fails on the sample history: after two puts
  and a delete without version id, the only row of the key is the first version, and it is
  not the latest.
\<close>

theorem versioned_latest_lost_after_delete:
  "b_versioningEnabled (sampleBucket True) \<and>
   fst (scenarioPut1 True) = Inr (sampleRow ''1'' ''v1'' True ''1'') \<and>
   fst (scenarioPut2 True) = Inr (sampleRow ''2'' ''v2'' True ''2'') \<and>
   fst scenarioDelete = Inr () \<and>
   objects (snd scenarioDelete) = [sampleRow ''1'' ''v1'' False ''2''] \<and>
   o_bucketId (sampleRow ''1'' ''v1'' False ''2'') = b_id (sampleBucket True) \<and>
   o_key (sampleRow ''1'' ''v1'' False ''2'') = ''a.txt'' \<and>
   \<not> o_isLatest (sampleRow ''1'' ''v1'' False ''2'')"
  by (simp add: scenarioPut1_eval scenarioPut2_versioned scenarioDelete_eval)
     (simp add: sampleRow_def sampleBucket_def)

section \<open>Access control lists\<close>

text \<open>
  Claim C8.  For a latest row without a stored ACL, \<^verbatim>\<open>getObjectAcl\<close> is to answer with a
  default ACL granting full control to the owner of the object.  The code names the
  caller instead: owner and sole grantee of the default ACL are the user id of the
  request, whatever the row's owner is.  \<^verbatim>\<open>updateObjectAcl\<close> does store the grants it is
  given as they are, with the caller as owner, in place of any grants stored before.
\<close>

theorem default_acl_names_the_requester:
  assumes bk: "Bucket_findOne st bucketName = Some bucket"
    and row: "latestOf st bucket key = Some row"
  shows "(o_acl row = None \<and>
          \<not> denied (IAMService_checkPermission (iamClient ev) userId ''read'' ''object''
                      (bucketName @ ''/'' @ key)) \<longrightarrow>
            fst (getObjectAcl ev st bucketName key userId) = Inr (defaultAcl userId) \<and>
            acl_owner_id (defaultAcl userId) = userId \<and>
            map grantee_id (acl_grants (defaultAcl userId)) = [userId] \<and>
            map grant_permission (acl_grants (defaultAcl userId)) = [''FULL_CONTROL'']) \<and>
         (\<not> denied (IAMService_checkPermission (iamClient ev) userId ''write'' ''object''
                      (bucketName @ ''/'' @ key)) \<longrightarrow>
            fst (updateObjectAcl ev fr st bucketName key (Some gs) userId)
              = Inr \<lparr>acl_owner_id = userId, acl_owner_displayName = ''Object Owner'',
                     acl_grants = gs\<rparr> \<and>
            map o_acl (filter (\<lambda>r. o_id r = o_id row)
                         (objects (snd (updateObjectAcl ev fr st bucketName key (Some gs) userId))))
              = map (\<lambda>r. Some \<lparr>acl_owner_id = userId, acl_owner_displayName = ''Object Owner'',
                                acl_grants = gs\<rparr>)
                  (filter (\<lambda>r. o_id r = o_id row) (objects st)))"
proof (intro conjI impI)
  assume a: "o_acl row = None \<and>
          \<not> denied (IAMService_checkPermission (iamClient ev) userId ''read'' ''object''
                      (bucketName @ ''/'' @ key))"
  with bk row show "fst (getObjectAcl ev st bucketName key userId) = Inr (defaultAcl userId)"
    by (simp add: getObjectAcl_def)
  show "acl_owner_id (defaultAcl userId) = userId"
    and "map grantee_id (acl_grants (defaultAcl userId)) = [userId]"
    and "map grant_permission (acl_grants (defaultAcl userId)) = [''FULL_CONTROL'']"
    by (simp_all add: defaultAcl_def)
next
  assume w: "\<not> denied (IAMService_checkPermission (iamClient ev) userId ''write'' ''object''
                      (bucketName @ ''/'' @ key))"
  with bk row show "fst (updateObjectAcl ev fr st bucketName key (Some gs) userId)
              = Inr \<lparr>acl_owner_id = userId, acl_owner_displayName = ''Object Owner'',
                     acl_grants = gs\<rparr>"
    by (simp add: updateObjectAcl_def Let_def)
  have "map o_acl (filter (\<lambda>r. o_id r = i)
           (map (\<lambda>r. if o_id r = i then r\<lparr>o_acl := Some a, o_updatedAt := t\<rparr> else r) rows))
        = map (\<lambda>r. Some a) (filter (\<lambda>r. o_id r = i) rows)" for i a t rows
    by (induction rows) auto
  with bk row w
  show "map o_acl (filter (\<lambda>r. o_id r = o_id row)
                         (objects (snd (updateObjectAcl ev fr st bucketName key (Some gs) userId))))
              = map (\<lambda>r. Some \<lparr>acl_owner_id = userId, acl_owner_displayName = ''Object Owner'',
                                acl_grants = gs\<rparr>)
                  (filter (\<lambda>r. o_id r = o_id row) (objects st))"
    by (simp add: updateObjectAcl_def Let_def logAccess_id S3Object_update_def)
qed

theorem default_acl_names_the_requester_witness:
  "o_ownerId (sampleRow ''1'' ''v1'' True ''1'') = ''admin-user'' \<and>
   fst (getObjectAcl sampleEnv (snd (scenarioPut1 False)) ''my-bucket'' ''a.txt'' ''admin-123'')
     = Inr \<lparr>acl_owner_id = ''admin-123'', acl_owner_displayName = ''Object Owner'',
            acl_grants =
              [\<lparr>grantee_id = ''admin-123'', grantee_displayName = ''Object Owner'',
                grantee_type = ''CanonicalUser'', grant_permission = ''FULL_CONTROL''\<rparr>]\<rparr> \<and>
   fst (updateObjectAcl sampleEnv (sampleFresh ''3'') (snd (scenarioPut1 False)) ''my-bucket''
          ''a.txt'' (Some []) ''admin-123'')
     = Inr \<lparr>acl_owner_id = ''admin-123'', acl_owner_displayName = ''Object Owner'',
            acl_grants = []\<rparr>"
proof -
  let ?st = "snd (scenarioPut1 False)"
  have bk: "Bucket_findOne ?st ''my-bucket'' = Some (sampleBucket False)"
    by (simp add: Bucket_findOne_def scenarioPut1_eval sampleBucket_def)
  have row: "latestOf ?st (sampleBucket False) ''a.txt'' = Some (sampleRow ''1'' ''v1'' True ''1'')"
    by (simp add: latestOf_def S3Object_findOne_def scenarioPut1_eval sampleRow_def
          sampleBucket_def)
  have ok: "\<not> denied (IAMService_checkPermission (iamClient sampleEnv) ''admin-123'' a
                       ''object'' (''my-bucket'' @ ''/'' @ ''a.txt''))" for a
    by (simp add: sampleEnv_def admin_allowed)
  have none: "o_acl (sampleRow ''1'' ''v1'' True ''1'') = None"
    by (simp add: sampleRow_def)
  from default_acl_names_the_requester [OF bk row, of sampleEnv "''admin-123''"
      "sampleFresh ''3''" "[]"] ok none
  show ?thesis
    by (simp add: defaultAcl_def sampleRow_def)
qed

end
